theory Spec2Isabelle
  imports Main "HOL-Library.AList"
begin

section \<open>Data model\<close>

text \<open>
  Thrown values. Every class below is an instance of the JavaScript \<open>Error\<close> and carries
  its message; \<open>NonError\<close> stands for a thrown value that is no \<open>Error\<close> instance, for which
  the handlers of the sources substitute the text \<open>Unknown error\<close>.
\<close>

datatype error =
    Error string
  | TypeError string
  | SyntaxError string
  | SignatureVerificationError string string
  | NonError

text \<open>The expression \<open>error instanceof Error ? error.message : 'Unknown error'\<close>.\<close>

fun error_message :: "error \<Rightarrow> string" where
  "error_message (Error m) = m"
| "error_message (TypeError m) = m"
| "error_message (SyntaxError m) = m"
| "error_message (SignatureVerificationError sg reason) =
     ''Signature verification failed: '' @ reason"
| "error_message NonError = ''Unknown error''"

text \<open>
  Values stored in the \<open>message\<close> object of a typed message
  (\<open>Record<string, unknown>\<close>): strings, native numbers and bigints.
\<close>

datatype JsValue = JString string | JNumber int | JBigInt int

record EIP712Domain =
  name :: string
  version :: string
  chainId :: int
  verifyingContract :: string

type_synonym EIP712Types = "(string \<times> (string \<times> string) list) list"

text \<open>
  \<open>SignableMessage\<close>: the field \<open>message\<close> is a JavaScript object; its keys are kept
  in insertion order, as an association list.
\<close>

record SignableMessage =
  domain :: EIP712Domain
  types :: EIP712Types
  primaryType :: string
  message :: "(string \<times> JsValue) list"

text \<open>
  \<open>SignatureResult = SingleSignature | SignatureAggregate\<close>. The arguments are, in order,
  \<open>signature, signer, message\<close> for a single signature and
  \<open>signatures, signers, threshold, message, aggregateSignature\<close> for an aggregate.
  The threshold is a JavaScript \<open>number\<close>, modelled as an integer.
\<close>

datatype SignatureResult =
    SingleSignature string string SignableMessage
  | SignatureAggregate "string list" "string list" int SignableMessage "string option"

datatype AggregationMethod = ecdsa | schnorr

record MultiSignConfig =
  threshold :: int
  signers :: "string list"
  aggregationMethod :: "AggregationMethod option"

text \<open>
  The fields of a \<open>MultiSignStrategy\<close> object that do not hold wallet connections.
\<close>

record MultiSignStrategy =
  config :: MultiSignConfig
  strategyAggregationMethod :: AggregationMethod

text \<open>
  \<open>ethers.verifyTypedData(domain, types, value, signature)\<close> is a library function:
  it either returns the recovered address or throws. It is a parameter of the model.
\<close>

type_synonym verifyTypedData =
  "EIP712Domain \<Rightarrow> EIP712Types \<Rightarrow> (string \<times> JsValue) list \<Rightarrow> string \<Rightarrow> error + string"

section \<open>Strings\<close>

text \<open>
  \<open>String.prototype.toLowerCase\<close> on the ASCII range, which holds every character of a
  hexadecimal address: the letters \<open>A\<close> to \<open>Z\<close> move to \<open>a\<close> to \<open>z\<close>, every other character
  stays.
\<close>

definition lowerChar :: "char \<Rightarrow> char" where
  "lowerChar c =
     (case map_of (zip ''ABCDEFGHIJKLMNOPQRSTUVWXYZ'' ''abcdefghijklmnopqrstuvwxyz'') c of
        None \<Rightarrow> c
      | Some l \<Rightarrow> l)"

definition toLowerCase :: "string \<Rightarrow> string" where
  "toLowerCase s = map lowerChar s"

text \<open>\<open>Array.prototype.join\<close>.\<close>

fun join :: "string \<Rightarrow> string list \<Rightarrow> string" where
  "join sep [] = []"
| "join sep [x] = x"
| "join sep (x # y # ys) = x @ sep @ join sep (y # ys)"

section \<open>Signer recovery (the strategies' private \<open>recoverSigner\<close>)\<close>

definition recoverSigner :: "verifyTypedData \<Rightarrow> SignableMessage \<Rightarrow> string \<Rightarrow> error + string" where
  "recoverSigner vtd msg sg =
     (case vtd (domain msg) (types msg) (message msg) sg of
        Inr recoveredAddress \<Rightarrow> Inr recoveredAddress
      | Inl e \<Rightarrow> Inl (Error (''Failed to recover signer: '' @ error_message e)))"

section \<open>\<open>MultiSignStrategy\<close>: verification\<close>

text \<open>
  The body of the \<open>try\<close> block of one loop iteration of \<open>verifyIndividualSignatures\<close>:
  \<open>Inr True\<close> when the counter is incremented, \<open>Inr False\<close> when it is not, \<open>Inl\<close> when the
  block throws. \<open>multiSig.signers[i]\<close> is \<open>undefined\<close> beyond the end of the array, and
  \<open>undefined.toLowerCase()\<close> throws a \<open>TypeError\<close>, after the recovery has been awaited.
\<close>

definition verifyPair ::
  "verifyTypedData \<Rightarrow> SignableMessage \<Rightarrow> string list \<Rightarrow> string list \<Rightarrow> nat \<Rightarrow> error + bool" where
  "verifyPair vtd msg sigs sgnrs i =
     (case recoverSigner vtd msg (sigs ! i) of
        Inl e \<Rightarrow> Inl e
      | Inr recoveredSigner \<Rightarrow>
          (if i < length sgnrs
           then Inr (toLowerCase recoveredSigner = toLowerCase (sgnrs ! i))
           else Inl (TypeError ''Cannot read properties of undefined'')))"

text \<open>
  The \<open>for\<close> loop of \<open>verifyIndividualSignatures\<close>, from index \<open>i\<close> with the counter
  \<open>validCount\<close>; a throwing iteration is caught and the loop continues.
\<close>

function verifyIndividualLoop ::
  "verifyTypedData \<Rightarrow> SignableMessage \<Rightarrow> string list \<Rightarrow> string list \<Rightarrow> nat \<Rightarrow> nat \<Rightarrow> nat" where
  "verifyIndividualLoop vtd msg sigs sgnrs i validCount =
     (if i < length sigs
      then (case verifyPair vtd msg sigs sgnrs i of
              Inr True \<Rightarrow> verifyIndividualLoop vtd msg sigs sgnrs (i + 1) (validCount + 1)
            | Inr False \<Rightarrow> verifyIndividualLoop vtd msg sigs sgnrs (i + 1) validCount
            | Inl e \<Rightarrow> verifyIndividualLoop vtd msg sigs sgnrs (i + 1) validCount)
      else validCount)"
  by pat_completeness auto
termination
  by (relation "measure (\<lambda>(vtd, msg, sigs, sgnrs, i, validCount). length sigs - i)") auto

declare verifyIndividualLoop.simps [simp del]

definition verifyIndividualSignatures ::
  "MultiSignStrategy \<Rightarrow> verifyTypedData \<Rightarrow> string list \<Rightarrow> string list \<Rightarrow> SignableMessage \<Rightarrow> nat" where
  "verifyIndividualSignatures self vtd sigs sgnrs msg = verifyIndividualLoop vtd msg sigs sgnrs 0 0"

text \<open>
  \<open>MultiSignStrategy.verifySignature\<close>. A \<open>SingleSignature\<close> has no \<open>signatures\<close> property,
  so the first guard returns false for it. The rest runs inside \<open>try\<close>; any thrown value
  is turned into the result false.
\<close>

definition multiVerifyBody ::
  "MultiSignStrategy \<Rightarrow> verifyTypedData \<Rightarrow> string list \<Rightarrow> string list \<Rightarrow> int \<Rightarrow>
     SignableMessage \<Rightarrow> error + bool" where
  "multiVerifyBody self vtd sigs sgnrs thr msg =
     (if int (length sigs) < thr then Inr False
      else Inr (thr \<le> int (verifyIndividualSignatures self vtd sigs sgnrs msg)))"

fun multiVerifySignature ::
  "MultiSignStrategy \<Rightarrow> verifyTypedData \<Rightarrow> SignatureResult \<Rightarrow> error + bool" where
  "multiVerifySignature self vtd (SingleSignature sg sgnr msg) = Inr False"
| "multiVerifySignature self vtd (SignatureAggregate sigs sgnrs thr msg agg) =
     (if length sigs = 0 then Inr False
      else (case multiVerifyBody self vtd sigs sgnrs thr msg of
              Inl e \<Rightarrow> Inr False
            | Inr b \<Rightarrow> Inr b))"

section \<open>\<open>SingleSignStrategy\<close>: verification\<close>

text \<open>
  \<open>SingleSignStrategy.verifySignature\<close>. An aggregate with more than one signature is
  rejected by the guard. An aggregate with at most one signature is read as a
  \<open>SingleSignature\<close> whose \<open>signature\<close> and \<open>signer\<close> are \<open>undefined\<close>: either the recovery
  throws, or \<open>singleSig.signer.toLowerCase()\<close> throws a \<open>TypeError\<close>; both are caught and
  give false.
\<close>

definition singleVerifyBody :: "verifyTypedData \<Rightarrow> string \<Rightarrow> string \<Rightarrow> SignableMessage \<Rightarrow> error + bool" where
  "singleVerifyBody vtd sg sgnr msg =
     (case recoverSigner vtd msg sg of
        Inl e \<Rightarrow> Inl e
      | Inr recoveredAddress \<Rightarrow> Inr (toLowerCase recoveredAddress = toLowerCase sgnr))"

fun singleVerifySignature :: "verifyTypedData \<Rightarrow> SignatureResult \<Rightarrow> error + bool" where
  "singleVerifySignature vtd (SingleSignature sg sgnr msg) =
     (case singleVerifyBody vtd sg sgnr msg of
        Inl e \<Rightarrow> Inr False
      | Inr b \<Rightarrow> Inr b)"
| "singleVerifySignature vtd (SignatureAggregate sigs sgnrs thr msg agg) = Inr False"

section \<open>The verification utilities (utils/verification.ts)\<close>

text \<open>
  \<open>verifySingleSignature\<close> takes a \<open>SingleSignature\<close> (signature, signer, message). It
  calls the library recovery itself and, unlike the strategy, rethrows a failure as a
  \<open>SignatureVerificationError\<close>.
\<close>

definition verifySingleSignature ::
  "verifyTypedData \<Rightarrow> string \<Rightarrow> string \<Rightarrow> SignableMessage \<Rightarrow> error + bool" where
  "verifySingleSignature vtd sg sgnr msg =
     (case vtd (domain msg) (types msg) (message msg) sg of
        Inl e \<Rightarrow> Inl (SignatureVerificationError sg (error_message e))
      | Inr recoveredAddress \<Rightarrow> Inr (toLowerCase recoveredAddress = toLowerCase sgnr))"

text \<open>
  \<open>verifyMultiSignature\<close> takes a \<open>SignatureAggregate\<close> (signatures, signers, threshold,
  message). Its loop has the shape of the strategy's; it has neither the guard on an
  empty list nor the comparison of the length with the threshold. Every statement of
  the loop body that can throw stands inside the inner \<open>try\<close>, so the outer handler,
  which would rethrow a \<open>SignatureVerificationError\<close>, is never entered.
\<close>

definition utilVerifyPair ::
  "verifyTypedData \<Rightarrow> SignableMessage \<Rightarrow> string list \<Rightarrow> string list \<Rightarrow> nat \<Rightarrow> error + bool" where
  "utilVerifyPair vtd msg sigs sgnrs i =
     (case vtd (domain msg) (types msg) (message msg) (sigs ! i) of
        Inl e \<Rightarrow> Inl e
      | Inr recoveredAddress \<Rightarrow>
          (if i < length sgnrs
           then Inr (toLowerCase recoveredAddress = toLowerCase (sgnrs ! i))
           else Inl (TypeError ''Cannot read properties of undefined'')))"

function verifyMultiLoop ::
  "verifyTypedData \<Rightarrow> SignableMessage \<Rightarrow> string list \<Rightarrow> string list \<Rightarrow> nat \<Rightarrow> nat \<Rightarrow> nat" where
  "verifyMultiLoop vtd msg sigs sgnrs i validSignatures =
     (if i < length sigs
      then (case utilVerifyPair vtd msg sigs sgnrs i of
              Inr True \<Rightarrow> verifyMultiLoop vtd msg sigs sgnrs (i + 1) (validSignatures + 1)
            | Inr False \<Rightarrow> verifyMultiLoop vtd msg sigs sgnrs (i + 1) validSignatures
            | Inl e \<Rightarrow> verifyMultiLoop vtd msg sigs sgnrs (i + 1) validSignatures)
      else validSignatures)"
  by pat_completeness auto
termination
  by (relation "measure (\<lambda>(vtd, msg, sigs, sgnrs, i, validSignatures). length sigs - i)") auto

declare verifyMultiLoop.simps [simp del]

definition verifyMultiSignature ::
  "verifyTypedData \<Rightarrow> string list \<Rightarrow> string list \<Rightarrow> int \<Rightarrow> SignableMessage \<Rightarrow> error + bool" where
  "verifyMultiSignature vtd sigs sgnrs thr msg =
     Inr (thr \<le> int (verifyMultiLoop vtd msg sigs sgnrs 0 0))"

section \<open>Decimal rendering of integers\<close>

text \<open>
  \<open>bigint.prototype.toString()\<close>, and the rendering of an integer-valued \<open>number\<close> in a
  template string: the decimal digits, most significant first, after a minus sign for a
  negative value.
\<close>

definition digitChar :: "nat \<Rightarrow> char" where
  "digitChar d = ''0123456789'' ! d"

function natToString :: "nat \<Rightarrow> string" where
  "natToString n =
     (if n < 10 then [digitChar n] else natToString (n div 10) @ [digitChar (n mod 10)])"
  by pat_completeness auto
termination
  by (relation "measure (\<lambda>n. n)") auto

declare natToString.simps [simp del]

definition intToString :: "int \<Rightarrow> string" where
  "intToString n = (if n < 0 then CHR ''-'' # natToString (nat (- n)) else natToString (nat n))"

text \<open>
  What a decimal string is: an optional minus sign before at least one digit \<open>0\<close> to \<open>9\<close>;
  and the integer such a string denotes.
\<close>

definition isDigit :: "char \<Rightarrow> bool" where
  "isDigit c = (c \<in> set ''0123456789'')"

definition digitValue :: "char \<Rightarrow> nat" where
  "digitValue c =
     (case map_of (zip ''0123456789'' [0, 1, 2, 3, 4, 5, 6, 7, 8, 9]) c of
        None \<Rightarrow> 0
      | Some d \<Rightarrow> d)"

fun isDecimalString :: "string \<Rightarrow> bool" where
  "isDecimalString [] = False"
| "isDecimalString (c # cs) =
     (if c = CHR ''-'' then cs \<noteq> [] \<and> list_all isDigit cs else list_all isDigit (c # cs))"

definition digitsValue :: "string \<Rightarrow> nat" where
  "digitsValue cs = foldl (\<lambda>acc c. 10 * acc + digitValue c) 0 cs"

fun decimalValue :: "string \<Rightarrow> int" where
  "decimalValue [] = 0"
| "decimalValue (c # cs) =
     (if c = CHR ''-'' then - int (digitsValue cs) else int (digitsValue (c # cs)))"

section \<open>\<open>NonceManager\<close>\<close>

text \<open>
  \<open>NonceState\<close> holds the counter (a bigint), the set of the decimal renderings of the
  used nonces, and the time of the last update in milliseconds. Every call of
  \<open>Date.now()\<close> is an argument of the operation that makes it.
\<close>

record NonceState =
  current :: int
  used :: "string set"
  lastUpdated :: int

record NonceManager =
  nonceState :: NonceState
  maxAge :: int

definition newNonceManager :: "int \<Rightarrow> int \<Rightarrow> int \<Rightarrow> NonceManager" where
  "newNonceManager initialNonce maxAgeMs now =
     \<lparr>nonceState = \<lparr>current = initialNonce, used = {}, lastUpdated = now\<rparr>, maxAge = maxAgeMs\<rparr>"

definition cleanup :: "int \<Rightarrow> NonceManager \<Rightarrow> NonceManager" where
  "cleanup now nm =
     (if now - lastUpdated (nonceState nm) > maxAge nm
      then nm\<lparr>nonceState := (nonceState nm)\<lparr>used := {}, lastUpdated := now\<rparr>\<rparr>
      else nm)"

definition generateNonce :: "int \<Rightarrow> int \<Rightarrow> NonceManager \<Rightarrow> int \<times> NonceManager" where
  "generateNonce now1 now2 nm =
     (let nm1 = cleanup now1 nm;
          nonce = current (nonceState nm1)
      in (nonce, nm1\<lparr>nonceState := (nonceState nm1)\<lparr>current := nonce + 1, lastUpdated := now2\<rparr>\<rparr>))"

definition markNonceUsed :: "int \<Rightarrow> int \<Rightarrow> NonceManager \<Rightarrow> NonceManager" where
  "markNonceUsed now nonce nm =
     (let nm1 = cleanup now nm
      in nm1\<lparr>nonceState := (nonceState nm1)\<lparr>used := insert (intToString nonce) (used (nonceState nm1))\<rparr>\<rparr>)"

definition isNonceUsed :: "int \<Rightarrow> int \<Rightarrow> NonceManager \<Rightarrow> bool \<times> NonceManager" where
  "isNonceUsed now nonce nm =
     (let nm1 = cleanup now nm in (intToString nonce \<in> used (nonceState nm1), nm1))"

definition isNonceValid :: "int \<Rightarrow> NonceManager \<Rightarrow> bool" where
  "isNonceValid nonce nm = (nonce \<ge> current (nonceState nm) - 1000)"

text \<open>
  \<open>validateNonce\<close> reads the clock twice: in its own \<open>cleanup\<close> and in the one of
  \<open>isNonceUsed\<close>.
\<close>

definition validateNonce :: "int \<Rightarrow> int \<Rightarrow> int \<Rightarrow> NonceManager \<Rightarrow> bool \<times> NonceManager" where
  "validateNonce now1 now2 nonce nm =
     (let nm1 = cleanup now1 nm;
          (isUsed, nm2) = isNonceUsed now2 nonce nm1
      in (\<not> isUsed \<and> isNonceValid nonce nm2, nm2))"

definition getState :: "int \<Rightarrow> NonceManager \<Rightarrow> NonceState \<times> NonceManager" where
  "getState now nm = (let nm1 = cleanup now nm in (nonceState nm1, nm1))"

definition reset :: "int \<Rightarrow> int \<Rightarrow> NonceManager \<Rightarrow> NonceManager" where
  "reset initialNonce now nm =
     nm\<lparr>nonceState := \<lparr>current = initialNonce, used = {}, lastUpdated = now\<rparr>\<rparr>"

definition syncWithBackend :: "int \<Rightarrow> int \<Rightarrow> NonceManager \<Rightarrow> NonceManager" where
  "syncWithBackend backendNonce now nm =
     nm\<lparr>nonceState := (nonceState nm)\<lparr>current := backendNonce + 1, lastUpdated := now\<rparr>\<rparr>"

section \<open>\<open>DomainConfig\<close>\<close>

text \<open>
  A \<open>DomainConfig\<close> object holds, in its field \<open>domain\<close>, a reference to one descriptor
  object; the reference is never reassigned. The descriptor objects live in a store,
  indexed by their references, so that writing through a reference is visible to
  every holder of the \<open>DomainConfig\<close>.
\<close>

type_synonym DomainStore = "EIP712Domain list"

record DomainConfig =
  domainRef :: nat

definition newDomainConfig ::
  "string \<Rightarrow> string \<Rightarrow> int \<Rightarrow> string \<Rightarrow> DomainStore \<Rightarrow> DomainConfig \<times> DomainStore" where
  "newDomainConfig nm ver cid vc st =
     (\<lparr>domainRef = length st\<rparr>,
      st @ [\<lparr>name = nm, version = ver, chainId = cid, verifyingContract = vc\<rparr>])"

text \<open>\<open>getDomain\<close> returns a fresh copy of the descriptor; the store is not written.\<close>

definition getDomain :: "DomainConfig \<Rightarrow> DomainStore \<Rightarrow> EIP712Domain" where
  "getDomain self st = st ! domainRef self"

definition updateChainId :: "DomainConfig \<Rightarrow> int \<Rightarrow> DomainStore \<Rightarrow> DomainStore" where
  "updateChainId self cid st = st[domainRef self := (st ! domainRef self)\<lparr>chainId := cid\<rparr>]"

definition updateVerifyingContract :: "DomainConfig \<Rightarrow> string \<Rightarrow> DomainStore \<Rightarrow> DomainStore" where
  "updateVerifyingContract self vc st =
     st[domainRef self := (st ! domainRef self)\<lparr>verifyingContract := vc\<rparr>]"

text \<open>
  \<open>validate\<close>: the \<open>typeof\<close> tests hold by the types of the fields; what remains is the
  sign of the chain id, the length 42 of the address and its prefix \<open>0x\<close>.
\<close>

definition startsWith :: "string \<Rightarrow> string \<Rightarrow> bool" where
  "startsWith s p = (take (length p) s = p)"

definition validateDomain :: "EIP712Domain \<Rightarrow> bool" where
  "validateDomain d =
     (chainId d > 0 \<and> length (verifyingContract d) = 42 \<and> startsWith (verifyingContract d) ''0x'')"

definition validate :: "DomainConfig \<Rightarrow> DomainStore \<Rightarrow> bool" where
  "validate self st = validateDomain (st ! domainRef self)"

definition domainToString :: "DomainConfig \<Rightarrow> DomainStore \<Rightarrow> string" where
  "domainToString self st =
     (let d = st ! domainRef self
      in ''Domain('' @ name d @ '' v'' @ version d @ '', chainId: '' @ intToString (chainId d)
         @ '', contract: '' @ verifyingContract d @ '')'')"

text \<open>The object invariant: the reference of a constructed \<open>DomainConfig\<close> is allocated.\<close>

definition allocated :: "DomainConfig \<Rightarrow> DomainStore \<Rightarrow> bool" where
  "allocated self st = (domainRef self < length st)"

section \<open>\<open>MessageFactory\<close>\<close>

text \<open>
  The signable operations (\<open>SignableOperation\<close>). The arguments are, in order:
  \<open>nonce, deadline, owner, amount, token\<close> for a deposit; the same and \<open>to\<close> for a
  withdrawal; \<open>nonce, deadline, owner, side, amount, price, token, orderType\<close> for an order
  submission; \<open>nonce, deadline, owner, orderId\<close> for an order cancellation.
  Nonce, deadline, amount and price are bigints.
\<close>

datatype Side = Buy | Sell

datatype OrderType = Limit | Market

fun sideString :: "Side \<Rightarrow> string" where
  "sideString Buy = ''buy''"
| "sideString Sell = ''sell''"

fun orderTypeString :: "OrderType \<Rightarrow> string" where
  "orderTypeString Limit = ''limit''"
| "orderTypeString Market = ''market''"

datatype SignableOperation =
    Deposit int int string int string
  | Withdrawal int int string int string string
  | OrderSubmission int int string Side int int string OrderType
  | OrderCancellation int int string string

fun operationName :: "SignableOperation \<Rightarrow> string" where
  "operationName (Deposit n d ow am tk) = ''Deposit''"
| "operationName (Withdrawal n d ow am tk to) = ''Withdrawal''"
| "operationName (OrderSubmission n d ow sd am pr tk ot) = ''OrderSubmission''"
| "operationName (OrderCancellation n d ow oid) = ''OrderCancellation''"

fun opNonce :: "SignableOperation \<Rightarrow> int" where
  "opNonce (Deposit n d ow am tk) = n"
| "opNonce (Withdrawal n d ow am tk to) = n"
| "opNonce (OrderSubmission n d ow sd am pr tk ot) = n"
| "opNonce (OrderCancellation n d ow oid) = n"

fun opDeadline :: "SignableOperation \<Rightarrow> int" where
  "opDeadline (Deposit n d ow am tk) = d"
| "opDeadline (Withdrawal n d ow am tk to) = d"
| "opDeadline (OrderSubmission n d ow sd am pr tk ot) = d"
| "opDeadline (OrderCancellation n d ow oid) = d"

fun opOwner :: "SignableOperation \<Rightarrow> string" where
  "opOwner (Deposit n d ow am tk) = ow"
| "opOwner (Withdrawal n d ow am tk to) = ow"
| "opOwner (OrderSubmission n d ow sd am pr tk ot) = ow"
| "opOwner (OrderCancellation n d ow oid) = ow"

fun opAmount :: "SignableOperation \<Rightarrow> int option" where
  "opAmount (Deposit n d ow am tk) = Some am"
| "opAmount (Withdrawal n d ow am tk to) = Some am"
| "opAmount (OrderSubmission n d ow sd am pr tk ot) = Some am"
| "opAmount (OrderCancellation n d ow oid) = None"

fun opPrice :: "SignableOperation \<Rightarrow> int option" where
  "opPrice (OrderSubmission n d ow sd am pr tk ot) = Some pr"
| "opPrice other = None"

definition baseTypes :: EIP712Types where
  "baseTypes =
     [(''EIP712Domain'',
       [(''name'', ''string''), (''version'', ''string''),
        (''chainId'', ''uint256''), (''verifyingContract'', ''address'')])]"

definition getTypesForOperation :: "string \<Rightarrow> error + EIP712Types" where
  "getTypesForOperation operation =
     (if operation = ''Deposit'' then
        Inr (baseTypes @
          [(''Deposit'',
            [(''operation'', ''string''), (''nonce'', ''uint256''), (''deadline'', ''uint256''),
             (''owner'', ''address''), (''amount'', ''uint256''), (''token'', ''address'')])])
      else if operation = ''Withdrawal'' then
        Inr (baseTypes @
          [(''Withdrawal'',
            [(''operation'', ''string''), (''nonce'', ''uint256''), (''deadline'', ''uint256''),
             (''owner'', ''address''), (''amount'', ''uint256''), (''token'', ''address''),
             (''to'', ''address'')])])
      else if operation = ''OrderSubmission'' then
        Inr (baseTypes @
          [(''OrderSubmission'',
            [(''operation'', ''string''), (''nonce'', ''uint256''), (''deadline'', ''uint256''),
             (''owner'', ''address''), (''side'', ''string''), (''amount'', ''uint256''),
             (''price'', ''uint256''), (''token'', ''address''), (''orderType'', ''string'')])])
      else if operation = ''OrderCancellation'' then
        Inr (baseTypes @
          [(''OrderCancellation'',
            [(''operation'', ''string''), (''nonce'', ''uint256''), (''deadline'', ''uint256''),
             (''owner'', ''address''), (''orderId'', ''string'')])])
      else Inl (Error (''Unknown operation type: '' @ operation)))"

text \<open>
  \<open>serializeOperation\<close>: the four common keys first, then the keys of the operation, in
  the order of the assignments.
\<close>

definition serializeBase :: "SignableOperation \<Rightarrow> (string \<times> JsValue) list" where
  "serializeBase operation =
     [(''operation'', JString (operationName operation)),
      (''nonce'', JString (intToString (opNonce operation))),
      (''deadline'', JString (intToString (opDeadline operation))),
      (''owner'', JString (opOwner operation))]"

fun serializeOperation :: "SignableOperation \<Rightarrow> (string \<times> JsValue) list" where
  "serializeOperation (Deposit n d ow am tk) =
     serializeBase (Deposit n d ow am tk) @
     [(''amount'', JString (intToString am)), (''token'', JString tk)]"
| "serializeOperation (Withdrawal n d ow am tk to) =
     serializeBase (Withdrawal n d ow am tk to) @
     [(''amount'', JString (intToString am)), (''token'', JString tk), (''to'', JString to)]"
| "serializeOperation (OrderSubmission n d ow sd am pr tk ot) =
     serializeBase (OrderSubmission n d ow sd am pr tk ot) @
     [(''side'', JString (sideString sd)), (''amount'', JString (intToString am)),
      (''price'', JString (intToString pr)), (''token'', JString tk),
      (''orderType'', JString (orderTypeString ot))]"
| "serializeOperation (OrderCancellation n d ow oid) =
     serializeBase (OrderCancellation n d ow oid) @ [(''orderId'', JString oid)]"

definition createMessage ::
  "DomainConfig \<Rightarrow> DomainStore \<Rightarrow> SignableOperation \<Rightarrow> error + SignableMessage" where
  "createMessage dc st operation =
     (case getTypesForOperation (operationName operation) of
        Inl e \<Rightarrow> Inl e
      | Inr tys \<Rightarrow>
          Inr \<lparr>domain = getDomain dc st, types = tys,
               primaryType = operationName operation,
               message = serializeOperation operation\<rparr>)"

text \<open>
  Truthiness of a property value read from the \<open>message\<close> object (an absent key reads as
  \<open>undefined\<close>), and the conversion \<open>BigInt(v)\<close>. The conversion of a string is the
  built-in parser, a parameter of the model: it yields the integer or throws a
  \<open>SyntaxError\<close>.
\<close>

fun truthy :: "JsValue option \<Rightarrow> bool" where
  "truthy None = False"
| "truthy (Some (JString s)) = (s \<noteq> [])"
| "truthy (Some (JNumber n)) = (n \<noteq> 0)"
| "truthy (Some (JBigInt n)) = (n \<noteq> 0)"

fun toBigInt :: "(string \<Rightarrow> int option) \<Rightarrow> JsValue option \<Rightarrow> error + int" where
  "toBigInt parse (Some (JString s)) =
     (case parse s of
        None \<Rightarrow> Inl (SyntaxError (''Cannot convert '' @ s @ '' to a BigInt''))
      | Some n \<Rightarrow> Inr n)"
| "toBigInt parse (Some (JNumber n)) = Inr n"
| "toBigInt parse (Some (JBigInt n)) = Inr n"
| "toBigInt parse None = Inl (TypeError ''Cannot convert undefined to a BigInt'')"

record MessageValidation =
  isValid :: bool
  errors :: "string list"

definition validationResult :: "string list \<Rightarrow> MessageValidation" where
  "validationResult errs = \<lparr>isValid = (length errs = 0), errors = errs\<rparr>"

text \<open>The deadline check of \<open>validateMessage\<close>, with the errors collected so far.\<close>

definition checkDeadline ::
  "(string \<Rightarrow> int option) \<Rightarrow> int \<Rightarrow> SignableMessage \<Rightarrow> string list \<Rightarrow> error + MessageValidation" where
  "checkDeadline parse now msg errs =
     (if truthy (map_of (message msg) ''deadline'')
      then (case toBigInt parse (map_of (message msg) ''deadline'') of
              Inl e \<Rightarrow> Inl e
            | Inr deadline \<Rightarrow>
                Inr (validationResult
                  (if deadline \<le> now div 1000 then errs @ [''Message deadline has passed'']
                   else errs)))
      else Inr (validationResult errs))"

text \<open>
  \<open>validateMessage\<close>. The result is what the call returns or throws, together with the
  \<open>NonceManager\<close> it leaves behind. \<open>message.types\<close> and \<open>message.message\<close> are objects and
  so truthy; the structure check is left with the primary type. The clock is read in
  the two cleanups of \<open>validateNonce\<close> and in the deadline check.
\<close>

definition validateMessage ::
  "(string \<Rightarrow> int option) \<Rightarrow> DomainConfig \<Rightarrow> DomainStore \<Rightarrow> NonceManager \<Rightarrow>
     int \<Rightarrow> int \<Rightarrow> int \<Rightarrow> SignableMessage \<Rightarrow> (error + MessageValidation) \<times> NonceManager" where
  "validateMessage parse dc st nm now1 now2 now3 msg =
     (let errors0 = (if \<not> validate dc st then [''Invalid domain configuration''] else []);
          errors1 = (if primaryType msg = [] then errors0 @ [''Invalid message structure'']
                     else errors0)
      in if truthy (map_of (message msg) ''nonce'')
         then (case toBigInt parse (map_of (message msg) ''nonce'') of
                 Inl e \<Rightarrow> (Inl e, nm)
               | Inr nonce \<Rightarrow>
                   (let (ok, nm') = validateNonce now1 now2 nonce nm;
                        errors2 = (if \<not> ok then errors1 @ [''Invalid or used nonce'']
                                   else errors1)
                    in (checkDeadline parse now3 msg errors2, nm')))
         else (checkDeadline parse now3 msg errors1, nm))"

section \<open>Collecting signatures from the connected wallets\<close>

text \<open>
  A wallet (\<open>EngineDexWalletProvider\<close>) as one signing round sees it: what \<open>getAddress()\<close>
  gives (an address, \<open>null\<close>, or a thrown value) and what \<open>signTypedData(message)\<close>
  gives. The \<open>Map\<close> of connected wallets is an association list in insertion order,
  keyed by wallet id. A collected entry is \<open>(walletId, address, signature)\<close>.
\<close>

record Wallet =
  getAddress :: "error + string option"
  signTypedData :: "SignableMessage \<Rightarrow> error + string"

type_synonym CollectedSignature = "string \<times> string \<times> string"

text \<open>
  The state of a multi-sign wallet collection: the \<open>Map\<close> and the threshold (the field
  \<open>threshold\<close> of the manager and of the Wagmi strategy, the constant \<open>threshold\<close> of the
  hook).
\<close>

record MultiSignWalletManager =
  connectedWallets :: "(string \<times> Wallet) list"
  walletThreshold :: int

definition addWallet :: "string \<Rightarrow> Wallet \<Rightarrow> MultiSignWalletManager \<Rightarrow> MultiSignWalletManager" where
  "addWallet walletId wallet self =
     self\<lparr>connectedWallets := AList.update walletId wallet (connectedWallets self)\<rparr>"

definition removeWallet :: "string \<Rightarrow> MultiSignWalletManager \<Rightarrow> MultiSignWalletManager" where
  "removeWallet walletId self =
     self\<lparr>connectedWallets := AList.delete walletId (connectedWallets self)\<rparr>"

definition isThresholdMet :: "MultiSignWalletManager \<Rightarrow> bool" where
  "isThresholdMet self = (int (length (connectedWallets self)) \<ge> walletThreshold self)"

text \<open>\<open>if (address)\<close>: \<open>null\<close> and the empty string are falsy.\<close>

fun addressTruthy :: "string option \<Rightarrow> bool" where
  "addressTruthy None = False"
| "addressTruthy (Some a) = (a \<noteq> [])"

text \<open>
  \<open>MultiSignWalletManager.collectSignatures\<close> (mixwallet.ts): one iteration gives an
  entry or nothing; a thrown value is logged and dropped. There is no threshold test
  and no \<open>throw\<close>.
\<close>

definition managerAttempt :: "SignableMessage \<Rightarrow> string \<times> Wallet \<Rightarrow> CollectedSignature option" where
  "managerAttempt msg entry =
     (case getAddress (snd entry) of
        Inl e \<Rightarrow> None
      | Inr address \<Rightarrow>
          (if addressTruthy address
           then (case signTypedData (snd entry) msg of
                   Inl e \<Rightarrow> None
                 | Inr sg \<Rightarrow> Some (fst entry, the address, sg))
           else None))"

fun managerCollectLoop ::
  "SignableMessage \<Rightarrow> (string \<times> Wallet) list \<Rightarrow> CollectedSignature list \<Rightarrow> CollectedSignature list" where
  "managerCollectLoop msg [] sigs = sigs"
| "managerCollectLoop msg (entry # rest) sigs =
     (case managerAttempt msg entry of
        None \<Rightarrow> managerCollectLoop msg rest sigs
      | Some c \<Rightarrow> managerCollectLoop msg rest (sigs @ [c]))"

definition managerCollectSignatures ::
  "MultiSignWalletManager \<Rightarrow> SignableMessage \<Rightarrow> error + CollectedSignature list" where
  "managerCollectSignatures self msg = Inr (managerCollectLoop msg (connectedWallets self) [])"

text \<open>
  \<open>useMultiSignWallet\<close> (the React hook): the threshold is
  \<open>config.multiSignThreshold || 1\<close>; \<open>collectSignatures\<close> records one error per failing
  wallet and throws when there are errors and no signature.
\<close>

fun hookThreshold :: "int option \<Rightarrow> int" where
  "hookThreshold None = 1"
| "hookThreshold (Some n) = (if n = 0 then 1 else n)"

definition toErrorObject :: "error \<Rightarrow> error" where
  "toErrorObject e = (case e of NonError \<Rightarrow> Error ''Unknown error'' | _ \<Rightarrow> e)"

definition hookAttempt :: "SignableMessage \<Rightarrow> string \<times> Wallet \<Rightarrow> (string \<times> error) + CollectedSignature" where
  "hookAttempt msg entry =
     (case getAddress (snd entry) of
        Inl e \<Rightarrow> Inl (fst entry, toErrorObject e)
      | Inr address \<Rightarrow>
          (if addressTruthy address
           then (case signTypedData (snd entry) msg of
                   Inl e \<Rightarrow> Inl (fst entry, toErrorObject e)
                 | Inr sg \<Rightarrow> Inr (fst entry, the address, sg))
           else Inl (fst entry, Error ''No address available'')))"

fun hookCollectLoop ::
  "SignableMessage \<Rightarrow> (string \<times> Wallet) list \<Rightarrow> CollectedSignature list \<Rightarrow> (string \<times> error) list \<Rightarrow>
     CollectedSignature list \<times> (string \<times> error) list" where
  "hookCollectLoop msg [] sigs errs = (sigs, errs)"
| "hookCollectLoop msg (entry # rest) sigs errs =
     (case hookAttempt msg entry of
        Inl err \<Rightarrow> hookCollectLoop msg rest sigs (errs @ [err])
      | Inr c \<Rightarrow> hookCollectLoop msg rest (sigs @ [c]) errs)"

definition hookCollectSignatures ::
  "MultiSignWalletManager \<Rightarrow> SignableMessage \<Rightarrow> error + CollectedSignature list" where
  "hookCollectSignatures self msg =
     (let (sigs, errs) = hookCollectLoop msg (connectedWallets self) [] []
      in if length errs > 0 \<and> length sigs = 0
         then Inl (Error (''Failed to collect signatures from all wallets: ''
                @ join '', '' (map (\<lambda>e. error_message (snd e)) errs)))
         else Inr sigs)"

text \<open>
  \<open>WagmiMultiSignStrategy.collectSignatures\<close> (signing.ts): the threshold is tested
  first; the first failing wallet ends the collection with a \<open>throw\<close>; a wallet without
  address is passed over.
\<close>

fun wagmiCollectLoop ::
  "SignableMessage \<Rightarrow> (string \<times> Wallet) list \<Rightarrow> CollectedSignature list \<Rightarrow> error + CollectedSignature list" where
  "wagmiCollectLoop msg [] sigs = Inr sigs"
| "wagmiCollectLoop msg (entry # rest) sigs =
     (case getAddress (snd entry) of
        Inl e \<Rightarrow> Inl (Error (''Failed to collect signature from wallet '' @ fst entry))
      | Inr address \<Rightarrow>
          (if addressTruthy address
           then (case signTypedData (snd entry) msg of
                   Inl e \<Rightarrow> Inl (Error (''Failed to collect signature from wallet '' @ fst entry))
                 | Inr sg \<Rightarrow> wagmiCollectLoop msg rest (sigs @ [(fst entry, the address, sg)]))
           else wagmiCollectLoop msg rest sigs))"

definition wagmiCollectSignatures ::
  "MultiSignWalletManager \<Rightarrow> SignableMessage \<Rightarrow> error + CollectedSignature list" where
  "wagmiCollectSignatures self msg =
     (if \<not> isThresholdMet self
      then Inl (Error (''Multi-sign threshold not met. Required: ''
             @ intToString (walletThreshold self) @ '', Connected: ''
             @ intToString (int (length (connectedWallets self)))))
      else wagmiCollectLoop msg (connectedWallets self) [])"

section \<open>Notions of the specification\<close>

text \<open>
  A (signature, claimed signer) pair matches when the recovery succeeds and gives the
  claimed address up to letter case; \<open>matchingPairs\<close> counts the matching pairs among the
  index-aligned pairs of the two lists.
\<close>

definition pairMatches :: "verifyTypedData \<Rightarrow> SignableMessage \<Rightarrow> string \<times> string \<Rightarrow> bool" where
  "pairMatches vtd msg p =
     (case vtd (domain msg) (types msg) (message msg) (fst p) of
        Inl e \<Rightarrow> False
      | Inr recovered \<Rightarrow> toLowerCase recovered = toLowerCase (snd p))"

definition matchingPairs :: "verifyTypedData \<Rightarrow> SignableMessage \<Rightarrow> string list \<Rightarrow> string list \<Rightarrow> nat" where
  "matchingPairs vtd msg sigs sgnrs = length (filter (pairMatches vtd msg) (zip sigs sgnrs))"

text \<open>
  A wallet produces a signature when \<open>getAddress()\<close> returns a non-empty address and
  \<open>signTypedData(message)\<close> returns. The successes of a signing round are the entries of
  the wallets that produce a signature, and the failure messages those of the other
  wallets, each in the iteration order of the wallets.
\<close>

definition producesSignature :: "SignableMessage \<Rightarrow> Wallet \<Rightarrow> bool" where
  "producesSignature msg w =
     (case getAddress w of
        Inl e \<Rightarrow> False
      | Inr address \<Rightarrow>
          addressTruthy address
          \<and> (case signTypedData w msg of Inl e \<Rightarrow> False | Inr sg \<Rightarrow> True))"

definition signedEntry :: "SignableMessage \<Rightarrow> string \<times> Wallet \<Rightarrow> CollectedSignature" where
  "signedEntry msg entry =
     (fst entry,
      (case getAddress (snd entry) of Inr (Some a) \<Rightarrow> a | Inr None \<Rightarrow> [] | Inl e \<Rightarrow> []),
      (case signTypedData (snd entry) msg of Inr sg \<Rightarrow> sg | Inl e \<Rightarrow> []))"

definition successes :: "SignableMessage \<Rightarrow> (string \<times> Wallet) list \<Rightarrow> CollectedSignature list" where
  "successes msg ws =
     map (signedEntry msg) (filter (\<lambda>entry. producesSignature msg (snd entry)) ws)"

definition failureMessage :: "SignableMessage \<Rightarrow> Wallet \<Rightarrow> string" where
  "failureMessage msg w =
     (case getAddress w of
        Inl e \<Rightarrow> error_message e
      | Inr address \<Rightarrow>
          (if addressTruthy address
           then (case signTypedData w msg of Inl e \<Rightarrow> error_message e | Inr sg \<Rightarrow> [])
           else ''No address available''))"

definition failureMessages :: "SignableMessage \<Rightarrow> (string \<times> Wallet) list \<Rightarrow> string list" where
  "failureMessages msg ws =
     map (\<lambda>entry. failureMessage msg (snd entry))
       (filter (\<lambda>entry. \<not> producesSignature msg (snd entry)) ws)"

section \<open>Example values\<close>

definition exampleDomain :: EIP712Domain where
  "exampleDomain =
     \<lparr>name = ''EngineDex'', version = ''1.0'', chainId = 1,
      verifyingContract = ''0x1234567890123456789012345678901234567890''\<rparr>"

definition exampleOperation :: SignableOperation where
  "exampleOperation = Deposit 7 4102444800 ''0x742d'' 1000000000000000000 ''0x0000''"

definition exampleMessage :: SignableMessage where
  "exampleMessage =
     \<lparr>domain = exampleDomain, types = baseTypes, primaryType = ''Deposit'',
      message = serializeOperation exampleOperation\<rparr>"

text \<open>
  A stand-in for the library recovery: two signatures recover to two addresses, every
  other signature is rejected with a thrown error.
\<close>

definition exampleRecover :: verifyTypedData where
  "exampleRecover d tys v sg =
     (if sg = ''0xsigA'' then Inr ''0xAAaa''
      else if sg = ''0xsigB'' then Inr ''0xBBbb''
      else Inl (Error ''invalid signature''))"

definition exampleStrategy :: MultiSignStrategy where
  "exampleStrategy =
     \<lparr>config = \<lparr>threshold = 1, signers = [''0xcccc''], aggregationMethod = Some ecdsa\<rparr>,
      strategyAggregationMethod = ecdsa\<rparr>"

text \<open>Wallets: one that signs, one that throws on signing, one without address.\<close>

definition signingWallet :: Wallet where
  "signingWallet = \<lparr>getAddress = Inr (Some ''0xaaaa''), signTypedData = (\<lambda>m. Inr ''0xsigA'')\<rparr>"

definition rejectingWallet :: Wallet where
  "rejectingWallet =
     \<lparr>getAddress = Inr (Some ''0xbbbb''), signTypedData = (\<lambda>m. Inl (Error ''User rejected''))\<rparr>"

definition lockedWallet :: Wallet where
  "lockedWallet = \<lparr>getAddress = Inr None, signTypedData = (\<lambda>m. Inr ''0xsigC'')\<rparr>"

text \<open>A decimal parser standing in for \<open>BigInt\<close> on strings.\<close>

definition exampleParse :: "string \<Rightarrow> int option" where
  "exampleParse s = (if isDecimalString s then Some (decimalValue s) else None)"

text \<open>A tracker that was last updated at time 0, with 5 marked used.\<close>

definition staleManager :: NonceManager where
  "staleManager =
     \<lparr>nonceState = \<lparr>current = 6, used = {''5''}, lastUpdated = 0\<rparr>, maxAge = 86400000\<rparr>"

text \<open>
  Wallet collections: one wallet below the threshold 2; three wallets of which one
  signs; two wallets that both fail, with the threshold 1.
\<close>

definition underThreshold :: MultiSignWalletManager where
  "underThreshold = \<lparr>connectedWallets = [(''w1'', signingWallet)], walletThreshold = 2\<rparr>"

definition mixedManager :: MultiSignWalletManager where
  "mixedManager =
     \<lparr>connectedWallets =
        [(''w1'', rejectingWallet), (''w2'', signingWallet), (''w3'', lockedWallet)],
      walletThreshold = 2\<rparr>"

definition failingManager :: MultiSignWalletManager where
  "failingManager =
     \<lparr>connectedWallets = [(''w1'', rejectingWallet), (''w3'', lockedWallet)],
      walletThreshold = 1\<rparr>"

text \<open>The domain configuration of the repository's tests, built in an empty store.\<close>

definition exampleConfig :: DomainConfig where
  "exampleConfig =
     fst (newDomainConfig ''EngineDex'' ''1.0'' 1 ''0x1234567890123456789012345678901234567890'' [])"

definition exampleStore :: DomainStore where
  "exampleStore =
     snd (newDomainConfig ''EngineDex'' ''1.0'' 1 ''0x1234567890123456789012345678901234567890'' [])"

section \<open>Multi-signature verification: the counting loop\<close>

lemma verifyPair_True_iff:
  "i < length sigs \<Longrightarrow> verifyPair vtd msg sigs sgnrs i = Inr True \<longleftrightarrow>
     i < length sgnrs \<and> pairMatches vtd msg (sigs ! i, sgnrs ! i)"
  by (auto simp: verifyPair_def recoverSigner_def pairMatches_def split: sum.splits)

lemma verifyIndividualLoop_count:
  "verifyIndividualLoop vtd msg sigs sgnrs i validCount =
     validCount + length (filter (\<lambda>k. verifyPair vtd msg sigs sgnrs k = Inr True) [i..<length sigs])"
proof (induction vtd msg sigs sgnrs i validCount rule: verifyIndividualLoop.induct)
  case (1 vtd msg sigs sgnrs i validCount)
  show ?case
  proof (cases "i < length sigs")
    case False
    then show ?thesis by (simp add: verifyIndividualLoop.simps)
  next
    case True
    then have upt: "[i..<length sigs] = i # [i + 1..<length sigs]"
      by (simp add: upt_conv_Cons)
    show ?thesis
      using True "1.IH"
      by (subst verifyIndividualLoop.simps) (auto simp: upt split: sum.splits bool.splits)
  qed
qed

lemma count_indices_zip:
  "length (filter (\<lambda>k. k < length ys \<and> P (xs ! k, ys ! k)) [0..<length xs]) =
   length (filter P (zip xs ys))"
proof (induction xs arbitrary: ys rule: rev_induct)
  case Nil
  then show ?case by simp
next
  case (snoc x xs)
  show ?case
  proof (cases "length xs < length ys")
    case True
    have z: "zip (xs @ [x]) ys = zip xs (take (length xs) ys) @ [(x, ys ! length xs)]"
      using True by (simp add: zip_append1 Cons_nth_drop_Suc [symmetric])
    have "filter (\<lambda>k. k < length ys \<and> P ((xs @ [x]) ! k, ys ! k)) [0..<length xs] =
          filter (\<lambda>k. k < length (take (length xs) ys) \<and> P (xs ! k, take (length xs) ys ! k))
            [0..<length xs]"
      using True by (intro filter_cong) (auto simp: nth_append)
    then show ?thesis using True snoc.IH [of "take (length xs) ys"]
      by (simp add: z)
  next
    case False
    then have z: "zip (xs @ [x]) ys = zip xs ys"
      by (simp add: zip_append1)
    have "filter (\<lambda>k. k < length ys \<and> P ((xs @ [x]) ! k, ys ! k)) [0..<length xs] =
          filter (\<lambda>k. k < length ys \<and> P (xs ! k, ys ! k)) [0..<length xs]"
      by (intro filter_cong) (auto simp: nth_append)
    then show ?thesis using False snoc.IH [of ys] by (simp add: z)
  qed
qed

lemma verifyIndividualSignatures_matchingPairs:
  "verifyIndividualSignatures self vtd sigs sgnrs msg = matchingPairs vtd msg sigs sgnrs"
proof -
  have "filter (\<lambda>k. verifyPair vtd msg sigs sgnrs k = Inr True) [0..<length sigs] =
        filter (\<lambda>k. k < length sgnrs \<and> pairMatches vtd msg (sigs ! k, sgnrs ! k)) [0..<length sigs]"
    by (intro filter_cong) (auto simp: verifyPair_True_iff)
  then show ?thesis
    by (simp add: verifyIndividualSignatures_def verifyIndividualLoop_count matchingPairs_def
        count_indices_zip)
qed

lemma utilVerifyPair_verifyPair:
  "utilVerifyPair vtd msg sigs sgnrs i = Inr b \<longleftrightarrow> verifyPair vtd msg sigs sgnrs i = Inr b"
  by (auto simp: utilVerifyPair_def verifyPair_def recoverSigner_def split: sum.splits)

lemma verifyMultiLoop_count:
  "verifyMultiLoop vtd msg sigs sgnrs i validSignatures =
     validSignatures
     + length (filter (\<lambda>k. utilVerifyPair vtd msg sigs sgnrs k = Inr True) [i..<length sigs])"
proof (induction vtd msg sigs sgnrs i validSignatures rule: verifyMultiLoop.induct)
  case (1 vtd msg sigs sgnrs i validSignatures)
  show ?case
  proof (cases "i < length sigs")
    case False
    then show ?thesis by (simp add: verifyMultiLoop.simps)
  next
    case True
    then have upt: "[i..<length sigs] = i # [i + 1..<length sigs]"
      by (simp add: upt_conv_Cons)
    show ?thesis
      using True "1.IH"
      by (subst verifyMultiLoop.simps) (auto simp: upt split: sum.splits bool.splits)
  qed
qed

lemma verifyMultiSignature_count:
  "verifyMultiSignature vtd sigs sgnrs thr msg =
     Inr (thr \<le> int (matchingPairs vtd msg sigs sgnrs))"
  using verifyIndividualSignatures_matchingPairs [of exampleStrategy vtd sigs sgnrs msg]
  by (simp add: verifyMultiSignature_def verifyMultiLoop_count verifyIndividualLoop_count
      utilVerifyPair_verifyPair verifyIndividualSignatures_def)

lemma toLowerCase_example: "toLowerCase ''0xAAaa'' = ''0xaaaa''"
  by (simp add: toLowerCase_def lowerChar_def)

lemma matchingPairs_example:
  "matchingPairs exampleRecover exampleMessage [''0xsigA''] [''0xaaaa''] = 1"
  by (simp add: matchingPairs_def pairMatches_def exampleRecover_def toLowerCase_def lowerChar_def)

text \<open>
  Claim C1, amended. For every aggregate, \<open>MultiSignStrategy.verifySignature\<close> returns
  false when the list of signatures is empty or shorter than the threshold; otherwise
  it returns true exactly when the number of index-aligned (signature, claimed signer)
  pairs whose recovered address equals the claimed address up to letter case is at
  least the threshold. A pair whose recovery throws is not counted and does not end
  the verification.
\<close>

theorem verifySignature_threshold_rule:
  "multiVerifySignature self vtd (SignatureAggregate sigs sgnrs thr msg agg) =
     Inr (if sigs = [] \<or> int (length sigs) < thr then False
          else thr \<le> int (matchingPairs vtd msg sigs sgnrs))"
  by (simp add: multiVerifyBody_def verifyIndividualSignatures_matchingPairs)

text \<open>
  The rule at work: two signatures, the second of which is rejected by the recovery,
  against the threshold 1.
\<close>

theorem verifySignature_threshold_rule_witness:
  "multiVerifySignature exampleStrategy exampleRecover
     (SignatureAggregate [''0xsigA'', ''0xbad''] [''0xaaaa'', ''0xbbbb''] 1 exampleMessage None)
   = Inr True"
  using verifySignature_threshold_rule [of exampleStrategy exampleRecover "[''0xsigA'', ''0xbad'']"
      "[''0xaaaa'', ''0xbbbb'']" 1 exampleMessage None]
  by (simp add: matchingPairs_def pairMatches_def exampleRecover_def toLowerCase_def lowerChar_def)

text \<open>
  Claim C1 as stated fails for the empty aggregate with threshold 0: the list is not
  shorter than the threshold and the count 0 reaches the threshold, yet the result is
  false.
\<close>

theorem verifySignature_threshold_rule_counterexample:
  "\<not> int (length ([] :: string list)) < 0
   \<and> 0 \<le> int (matchingPairs exampleRecover exampleMessage [] [])
   \<and> multiVerifySignature exampleStrategy exampleRecover
        (SignatureAggregate [] [] 0 exampleMessage None) = Inr False"
  by (simp add: matchingPairs_def)

text \<open>
  Claim C2, amended. A pair is counted exactly when its recovered address equals its
  claimed address up to letter case. The configured signer list
  (\<open>MultiSignConfig.signers\<close>) is not consulted: the count is a function of the aggregate
  alone, and the verification gives the same result under every configuration. The
  utility \<open>verifyMultiSignature\<close>, which has no configuration, counts the same pairs.
\<close>

theorem verifyIndividualSignatures_ignores_config:
  "verifyIndividualSignatures self vtd sigs sgnrs msg = matchingPairs vtd msg sigs sgnrs
   \<and> multiVerifySignature self vtd sr = multiVerifySignature self' vtd sr
   \<and> verifyMultiSignature vtd sigs sgnrs thr msg =
       Inr (thr \<le> int (matchingPairs vtd msg sigs sgnrs))"
proof -
  have "multiVerifySignature self vtd sr = multiVerifySignature self' vtd sr"
    by (cases sr) (simp_all add: multiVerifyBody_def verifyIndividualSignatures_matchingPairs)
  then show ?thesis
    by (simp add: verifyIndividualSignatures_matchingPairs verifyMultiSignature_count)
qed

text \<open>
  Claim C2 as stated fails: the claimed signer \<open>0xaaaa\<close> is outside the configured signer
  list, its pair is counted all the same, and the aggregate verifies.
\<close>

theorem expected_signer_set_counterexample:
  "''0xaaaa'' \<notin> set (signers (config exampleStrategy))
   \<and> verifyIndividualSignatures exampleStrategy exampleRecover [''0xsigA''] [''0xaaaa'']
        exampleMessage = 1
   \<and> multiVerifySignature exampleStrategy exampleRecover
        (SignatureAggregate [''0xsigA''] [''0xaaaa''] 1 exampleMessage None) = Inr True"
  by (simp add: exampleStrategy_def multiVerifyBody_def verifyIndividualSignatures_matchingPairs
      matchingPairs_example)

text \<open>
  Claim C10. \<open>MultiSignStrategy.verifySignature\<close> returns a boolean on every input and
  under every behaviour of the recovery, and never throws; it returns false for an
  aggregate whose list of signatures is empty, whatever the threshold, and for a result
  without a list of signatures.
\<close>

theorem multi_verifySignature_total:
  "(\<exists>b. multiVerifySignature self vtd sr = Inr b)
   \<and> multiVerifySignature self vtd (SignatureAggregate [] sgnrs thr msg agg) = Inr False
   \<and> multiVerifySignature self vtd (SingleSignature sg sgnr msg) = Inr False"
proof -
  have "\<exists>b. multiVerifySignature self vtd sr = Inr b"
    by (cases sr) (auto simp: multiVerifyBody_def)
  then show ?thesis by simp
qed

section \<open>Single-signature verification\<close>

lemma verifySingleSignature_rethrows:
  "vtd (domain msg) (types msg) (message msg) sg = Inl e \<Longrightarrow>
     verifySingleSignature vtd sg sgnr msg = Inl (SignatureVerificationError sg (error_message e))"
  by (simp add: verifySingleSignature_def)

text \<open>
  Claim C5. For every signature record, \<open>SingleSignStrategy.verifySignature\<close> recovers
  the signer from the record's message and signature and returns whether the recovered
  address equals the recorded signer up to letter case; when the recovery throws it
  returns false. On every input it returns a boolean and does not throw.
\<close>

theorem single_verifySignature_total:
  "singleVerifySignature vtd (SingleSignature sg sgnr msg) =
     Inr (case vtd (domain msg) (types msg) (message msg) sg of
            Inl e \<Rightarrow> False
          | Inr recovered \<Rightarrow> toLowerCase recovered = toLowerCase sgnr)
   \<and> (\<exists>b. singleVerifySignature vtd sr = Inr b)"
proof -
  have "\<exists>b. singleVerifySignature vtd sr = Inr b"
    by (cases sr) (auto simp: singleVerifyBody_def split: sum.splits)
  moreover have "singleVerifySignature vtd (SingleSignature sg sgnr msg) =
     Inr (case vtd (domain msg) (types msg) (message msg) sg of
            Inl e \<Rightarrow> False
          | Inr recovered \<Rightarrow> toLowerCase recovered = toLowerCase sgnr)"
    by (simp add: singleVerifyBody_def recoverSigner_def split: sum.splits)
  ultimately show ?thesis by simp
qed

section \<open>Collecting signatures\<close>

lemma error_message_toErrorObject: "error_message (toErrorObject e) = error_message e"
  by (cases e) (simp_all add: toErrorObject_def)

lemma hookAttempt_success:
  "producesSignature msg (snd entry) \<Longrightarrow> hookAttempt msg entry = Inr (signedEntry msg entry)"
  by (cases "getAddress (snd entry)")
     (auto simp: producesSignature_def hookAttempt_def signedEntry_def
        split: sum.splits option.splits)

lemma hookAttempt_failure:
  "\<not> producesSignature msg (snd entry) \<Longrightarrow>
     \<exists>err. hookAttempt msg entry = Inl (fst entry, err)
       \<and> error_message err = failureMessage msg (snd entry)"
  by (cases "getAddress (snd entry)")
     (auto simp: producesSignature_def hookAttempt_def failureMessage_def
        error_message_toErrorObject split: sum.splits)

lemma hookCollectLoop_result:
  "fst (hookCollectLoop msg ws sigs errs) = sigs @ successes msg ws
   \<and> map (\<lambda>e. error_message (snd e)) (snd (hookCollectLoop msg ws sigs errs)) =
       map (\<lambda>e. error_message (snd e)) errs @ failureMessages msg ws"
proof (induction ws arbitrary: sigs errs)
  case Nil
  then show ?case by (simp add: successes_def failureMessages_def)
next
  case (Cons entry ws)
  show ?case
  proof (cases "producesSignature msg (snd entry)")
    case True
    then show ?thesis
      using Cons.IH [of "sigs @ [signedEntry msg entry]" errs]
      by (simp add: hookAttempt_success successes_def failureMessages_def)
  next
    case False
    then obtain err where e: "hookAttempt msg entry = Inl (fst entry, err)"
        "error_message err = failureMessage msg (snd entry)"
      using hookAttempt_failure by blast
    then show ?thesis
      using False Cons.IH [of sigs "errs @ [(fst entry, err)]"]
      by (simp add: successes_def failureMessages_def)
  qed
qed

text \<open>
  The hook on a collection with at least one wallet: it returns the successes when
  some wallet produces a signature, and throws with the joined failure messages of all
  wallets when none does.
\<close>

lemma hookCollectSignatures_rule:
  assumes "connectedWallets self \<noteq> []"
  shows "hookCollectSignatures self msg =
     (if list_ex (\<lambda>entry. producesSignature msg (snd entry)) (connectedWallets self)
      then Inr (successes msg (connectedWallets self))
      else Inl (Error (''Failed to collect signatures from all wallets: ''
             @ join '', '' (failureMessages msg (connectedWallets self)))))"
proof -
  let ?ws = "connectedWallets self"
  let ?r = "hookCollectLoop msg ?ws [] []"
  have s: "fst ?r = successes msg ?ws"
    and f: "map (\<lambda>e. error_message (snd e)) (snd ?r) = failureMessages msg ?ws"
    using hookCollectLoop_result [of msg ?ws "[]" "[]"] by simp_all
  have lf: "length (snd ?r) = length (failureMessages msg ?ws)"
    using f by (metis length_map)
  show ?thesis
  proof (cases "list_ex (\<lambda>entry. producesSignature msg (snd entry)) ?ws")
    case True
    then have "successes msg ?ws \<noteq> []"
      by (auto simp: successes_def list_ex_iff filter_empty_conv)
    then show ?thesis
      using True s by (simp add: hookCollectSignatures_def case_prod_beta)
  next
    case False
    then have all: "filter (\<lambda>entry. \<not> producesSignature msg (snd entry)) ?ws = ?ws"
      by (auto simp: list_ex_iff)
    have "successes msg ?ws = []"
      using False by (auto simp: successes_def list_ex_iff filter_empty_conv)
    moreover have "length (snd ?r) > 0"
      using lf all assms by (simp add: failureMessages_def)
    ultimately show ?thesis
      using False s f by (simp add: hookCollectSignatures_def case_prod_beta)
  qed
qed

text \<open>
  The manager on every collection: it returns the successes and never throws, also when
  no wallet produces a signature.
\<close>

lemma managerCollectLoop_result:
  "managerCollectLoop msg ws sigs = sigs @ successes msg ws"
proof (induction ws arbitrary: sigs)
  case Nil
  then show ?case by (simp add: successes_def)
next
  case (Cons entry ws)
  have "managerAttempt msg entry =
      (if producesSignature msg (snd entry) then Some (signedEntry msg entry) else None)"
    by (cases "getAddress (snd entry)")
       (auto simp: managerAttempt_def producesSignature_def signedEntry_def
          split: sum.splits option.splits)
  then show ?case using Cons.IH by (simp add: successes_def)
qed

lemma managerCollectSignatures_rule:
  "managerCollectSignatures self msg = Inr (successes msg (connectedWallets self))"
  by (simp add: managerCollectSignatures_def managerCollectLoop_result)

lemma natToString_digit: "n < 10 \<Longrightarrow> natToString n = [digitChar n]"
  by (simp add: natToString.simps)

lemma length_AList_update:
  "length (AList.update k v al) = (if k \<in> fst ` set al then length al else length al + 1)"
proof -
  have "length (AList.update k v al) = length (map fst (AList.update k v al))" by simp
  also have "\<dots> = (if k \<in> fst ` set al then length al else length al + 1)"
    by (simp add: update_keys)
  finally show ?thesis .
qed

lemma addWallet_size:
  "length (connectedWallets (addWallet walletId w self)) =
     (if walletId \<in> fst ` set (connectedWallets self) then length (connectedWallets self)
      else length (connectedWallets self) + 1)"
  by (simp add: addWallet_def length_AList_update)

lemma addWallet_twice:
  "addWallet walletId w' (addWallet walletId w self) = addWallet walletId w' self"
  by (simp add: addWallet_def)

lemma managerCollectSignatures_returns: "\<exists>sigs. managerCollectSignatures self msg = Inr sigs"
  by (simp add: managerCollectSignatures_def)

lemma wagmiCollectSignatures_threshold:
  "\<not> isThresholdMet self \<Longrightarrow> \<exists>m. wagmiCollectSignatures self msg = Inl (Error m)"
  by (simp add: wagmiCollectSignatures_def)

lemma hookCollectSignatures_mixed:
  "hookCollectSignatures mixedManager exampleMessage = Inr [(''w2'', ''0xaaaa'', ''0xsigA'')]"
  by (simp add: hookCollectSignatures_def mixedManager_def hookAttempt_def signingWallet_def
      rejectingWallet_def lockedWallet_def toErrorObject_def)

text \<open>
  Claim C3. With the threshold 2 and one connected wallet the threshold is not met;
  \<open>collectSignatures\<close> of the manager and of the hook do not test it: they ask the wallet
  to sign and return its signature. \<open>WagmiMultiSignStrategy.collectSignatures\<close> fails
  there with the required and connected counts.
\<close>

theorem collectSignatures_threshold_not_checked:
  "\<not> isThresholdMet underThreshold
   \<and> managerCollectSignatures underThreshold exampleMessage = Inr [(''w1'', ''0xaaaa'', ''0xsigA'')]
   \<and> hookCollectSignatures underThreshold exampleMessage = Inr [(''w1'', ''0xaaaa'', ''0xsigA'')]
   \<and> wagmiCollectSignatures underThreshold exampleMessage =
       Inl (Error ''Multi-sign threshold not met. Required: 2, Connected: 1'')"
  by (simp add: underThreshold_def isThresholdMet_def managerCollectSignatures_def
      managerAttempt_def hookCollectSignatures_def hookAttempt_def wagmiCollectSignatures_def
      signingWallet_def intToString_def natToString_digit digitChar_def)

text \<open>
  Claim C4. Two wallets are connected and the threshold 1 is met; the first wallet
  throws on signing and the second has no address, so every wallet fails to produce a
  signature. \<open>collectSignatures\<close> of the hook throws there, with the messages of both
  failures, as the claim says. \<open>MultiSignWalletManager.collectSignatures\<close> does not throw:
  it returns the empty list.
\<close>

theorem collectSignatures_all_failed_no_throw:
  "isThresholdMet failingManager
   \<and> signTypedData rejectingWallet exampleMessage = Inl (Error ''User rejected'')
   \<and> getAddress lockedWallet = Inr None
   \<and> managerCollectSignatures failingManager exampleMessage = Inr []
   \<and> hookCollectSignatures failingManager exampleMessage =
       Inl (Error ''Failed to collect signatures from all wallets: User rejected, No address available'')"
  by (simp add: failingManager_def isThresholdMet_def managerCollectSignatures_def
      managerAttempt_def hookCollectSignatures_def hookAttempt_def rejectingWallet_def
      lockedWallet_def toErrorObject_def)

section \<open>Decimal strings\<close>

lemma digit_cases: "d < 10 \<Longrightarrow> d \<in> {0, 1, 2, 3, 4, 5, 6, 7, 8, 9::nat}"
  by auto

lemma digitValue_digitChar: "d < 10 \<Longrightarrow> digitValue (digitChar d) = d"
  using digit_cases [of d] by (auto simp: digitChar_def digitValue_def)

lemma isDigit_digitChar: "d < 10 \<Longrightarrow> isDigit (digitChar d)"
  using digit_cases [of d] by (auto simp: digitChar_def isDigit_def)

lemma digitsValue_snoc: "digitsValue (cs @ [c]) = 10 * digitsValue cs + digitValue c"
  by (simp add: digitsValue_def)

lemma natToString_nonempty: "natToString n \<noteq> []"
  by (subst natToString.simps) simp

lemma natToString_digits: "list_all isDigit (natToString n)"
proof (induction n rule: natToString.induct)
  case (1 n)
  then show ?case
    by (subst natToString.simps) (simp add: isDigit_digitChar)
qed

lemma natToString_value: "digitsValue (natToString n) = n"
proof (induction n rule: natToString.induct)
  case (1 n)
  show ?case
  proof (cases "n < 10")
    case True
    then show ?thesis
      by (subst natToString.simps) (simp add: digitsValue_def digitValue_digitChar)
  next
    case False
    with 1 show ?thesis
      by (subst natToString.simps) (simp add: digitsValue_snoc digitValue_digitChar)
  qed
qed

lemma natToString_hd: "\<exists>c cs. natToString n = c # cs \<and> isDigit c \<and> c \<noteq> CHR ''-''"
proof -
  obtain c cs where e: "natToString n = c # cs"
    using natToString_nonempty [of n] by (cases "natToString n") auto
  moreover have d: "isDigit c" using natToString_digits [of n] e by simp
  moreover have "c \<noteq> CHR ''-''" using d by (auto simp: isDigit_def)
  ultimately show ?thesis by blast
qed

lemma intToString_decimal: "isDecimalString (intToString n)"
proof (cases "n < 0")
  case True
  then show ?thesis
    by (simp add: intToString_def natToString_nonempty natToString_digits)
next
  case False
  obtain c cs where e: "natToString (nat n) = c # cs" "isDigit c" "c \<noteq> CHR ''-''"
    using natToString_hd by blast
  then show ?thesis
    using False natToString_digits [of "nat n"] by (simp add: intToString_def)
qed

lemma intToString_value: "decimalValue (intToString n) = n"
proof (cases "n < 0")
  case True
  then show ?thesis by (simp add: intToString_def natToString_value)
next
  case False
  obtain c cs where e: "natToString (nat n) = c # cs" "isDigit c" "c \<noteq> CHR ''-''"
    using natToString_hd by blast
  have "digitsValue (c # cs) = nat n" using natToString_value [of "nat n"] e by simp
  then show ?thesis using False e by (simp add: intToString_def)
qed

lemma intToString_inj: "intToString a = intToString b \<Longrightarrow> a = b"
  using intToString_value by metis

lemma intToString_negative_example: "intToString (- 15) = ''-15''"
  by (simp add: intToString_def natToString.simps digitChar_def)

section \<open>The message builder\<close>

lemma serializeOperation_strings:
  "list_all (\<lambda>kv. case snd kv of JString s \<Rightarrow> True | JNumber i \<Rightarrow> False | JBigInt i \<Rightarrow> False)
     (serializeOperation operation)"
  by (cases operation) (simp_all add: serializeBase_def)

lemma createMessage_returns:
  "\<exists>tys. createMessage dc st operation =
     Inr \<lparr>domain = getDomain dc st, types = tys,
          primaryType = operationName operation, message = serializeOperation operation\<rparr>"
  by (cases operation) (simp_all add: createMessage_def getTypesForOperation_def)

text \<open>
  Claim C9. For each of the four operations the field map built by the message builder
  holds the nonce and the deadline, and the amount and the price where the operation
  has them, as strings: the decimal rendering of the integer, which is a decimal string
  and denotes that integer exactly. No value of the map is a native number or a
  bigint, and \<open>createMessage\<close> returns a message with this map.
\<close>

theorem serializeOperation_decimal_strings:
  "map_of (serializeOperation operation) ''nonce'' =
     Some (JString (intToString (opNonce operation)))
   \<and> map_of (serializeOperation operation) ''deadline'' =
     Some (JString (intToString (opDeadline operation)))
   \<and> map_of (serializeOperation operation) ''amount'' =
     map_option (\<lambda>a. JString (intToString a)) (opAmount operation)
   \<and> map_of (serializeOperation operation) ''price'' =
     map_option (\<lambda>p. JString (intToString p)) (opPrice operation)
   \<and> isDecimalString (intToString n) \<and> decimalValue (intToString n) = n
   \<and> list_all (\<lambda>kv. case snd kv of JString s \<Rightarrow> True | JNumber i \<Rightarrow> False | JBigInt i \<Rightarrow> False)
        (serializeOperation operation)
   \<and> (\<exists>m. createMessage dc st operation = Inr m \<and> message m = serializeOperation operation)"
proof -
  have "map_of (serializeOperation operation) ''nonce'' =
      Some (JString (intToString (opNonce operation)))"
    by (cases operation) (simp_all add: serializeBase_def)
  moreover have "map_of (serializeOperation operation) ''deadline'' =
      Some (JString (intToString (opDeadline operation)))"
    by (cases operation) (simp_all add: serializeBase_def)
  moreover have "map_of (serializeOperation operation) ''amount'' =
      map_option (\<lambda>a. JString (intToString a)) (opAmount operation)"
    by (cases operation) (simp_all add: serializeBase_def)
  moreover have "map_of (serializeOperation operation) ''price'' =
      map_option (\<lambda>p. JString (intToString p)) (opPrice operation)"
    by (cases operation) (simp_all add: serializeBase_def)
  moreover have "\<exists>m. createMessage dc st operation = Inr m \<and> message m = serializeOperation operation"
    using createMessage_returns [of dc st operation] by auto
  ultimately show ?thesis
    by (simp add: intToString_decimal intToString_value serializeOperation_strings)
qed

text \<open>The deposit of the examples: nonce 7 and the amount of one ether in wei.\<close>

theorem serializeOperation_decimal_strings_witness:
  "map_of (serializeOperation exampleOperation) ''nonce'' = Some (JString ''7'')
   \<and> map_of (serializeOperation exampleOperation) ''amount'' = Some (JString ''1000000000000000000'')
   \<and> map_of (serializeOperation exampleOperation) ''price'' = None"
  using serializeOperation_decimal_strings [of exampleOperation 0 exampleConfig exampleStore]
  by (simp add: exampleOperation_def intToString_def natToString.simps digitChar_def)

section \<open>The nonce tracker\<close>

lemma cleanup_current: "current (nonceState (cleanup now nm)) = current (nonceState nm)"
  by (simp add: cleanup_def)

lemma cleanup_maxAge: "maxAge (cleanup now nm) = maxAge nm"
  by (simp add: cleanup_def)

lemma cleanup_fresh: "now - lastUpdated (nonceState nm) \<le> maxAge nm \<Longrightarrow> cleanup now nm = nm"
  by (simp add: cleanup_def)

lemma cleanup_twice_used:
  "used (nonceState (cleanup now2 (cleanup now1 nm))) =
     (if now1 - lastUpdated (nonceState nm) \<le> maxAge nm \<and> now2 - lastUpdated (nonceState nm) \<le> maxAge nm
      then used (nonceState nm) else {})"
  by (simp add: cleanup_def)

lemma validateNonce_state: "snd (validateNonce now1 now2 n nm) = cleanup now2 (cleanup now1 nm)"
  by (simp add: validateNonce_def isNonceUsed_def Let_def)

lemma validateNonce_value:
  "fst (validateNonce now1 now2 n nm) =
     (intToString n \<notin> used (nonceState (cleanup now2 (cleanup now1 nm)))
      \<and> n \<ge> current (nonceState nm) - 1000)"
  by (simp add: validateNonce_def isNonceUsed_def isNonceValid_def Let_def cleanup_current)

lemma markNonceUsed_used:
  "intToString m \<in> used (nonceState (markNonceUsed now n nm)) \<longleftrightarrow>
     m = n \<or> intToString m \<in> used (nonceState (cleanup now nm))"
  using intToString_inj [of m n] by (auto simp: markNonceUsed_def Let_def)

lemma markNonceUsed_maxAge: "maxAge (markNonceUsed now n nm) = maxAge nm"
  by (simp add: markNonceUsed_def Let_def cleanup_maxAge)

lemma generateNonce_increasing:
  "fst (generateNonce t3 t4 (snd (generateNonce t1 t2 nm))) = fst (generateNonce t1 t2 nm) + 1"
  by (simp add: generateNonce_def Let_def cleanup_current)

text \<open>
  Claim C8, amended. \<open>validateNonce\<close> first runs the time-boxed cleanup, which empties
  the used set when the clock is more than \<open>maxAge\<close> past the last update. When no
  cleanup fires, \<open>validate(n)\<close> is true if and only if \<open>n\<close> is not in the used set and
  \<open>n >= current - 1000\<close>; when one fires, it is true if and only if
  \<open>n >= current - 1000\<close>. After \<open>markUsed(n)\<close>, \<open>validate(n)\<close> is false provided no cleanup
  fires at the validation.
\<close>

theorem validateNonce_semantics:
  "fst (validateNonce now1 now2 n nm) =
     (if now1 - lastUpdated (nonceState nm) \<le> maxAge nm \<and> now2 - lastUpdated (nonceState nm) \<le> maxAge nm
      then intToString n \<notin> used (nonceState nm) \<and> n \<ge> current (nonceState nm) - 1000
      else n \<ge> current (nonceState nm) - 1000)
   \<and> (now1 - lastUpdated (nonceState (markNonceUsed now0 n nm)) \<le> maxAge nm
        \<and> now2 - lastUpdated (nonceState (markNonceUsed now0 n nm)) \<le> maxAge nm
      \<longrightarrow> \<not> fst (validateNonce now1 now2 n (markNonceUsed now0 n nm)))"
proof -
  have a: "fst (validateNonce now1 now2 n nm) =
     (if now1 - lastUpdated (nonceState nm) \<le> maxAge nm \<and> now2 - lastUpdated (nonceState nm) \<le> maxAge nm
      then intToString n \<notin> used (nonceState nm) \<and> n \<ge> current (nonceState nm) - 1000
      else n \<ge> current (nonceState nm) - 1000)"
    by (simp add: validateNonce_value cleanup_twice_used)
  have b: "\<not> fst (validateNonce now1 now2 n (markNonceUsed now0 n nm))"
    if h1: "now1 - lastUpdated (nonceState (markNonceUsed now0 n nm)) \<le> maxAge nm"
    and h2: "now2 - lastUpdated (nonceState (markNonceUsed now0 n nm)) \<le> maxAge nm"
  proof -
    let ?m = "markNonceUsed now0 n nm"
    have "cleanup now1 ?m = ?m" using h1 by (simp add: cleanup_fresh markNonceUsed_maxAge)
    moreover have "cleanup now2 ?m = ?m" using h2 by (simp add: cleanup_fresh markNonceUsed_maxAge)
    ultimately show ?thesis by (simp add: validateNonce_value markNonceUsed_used)
  qed
  show ?thesis using a b by blast
qed

text \<open>
  A tracker made at time 0: after 5 is marked at time 9, the validation at times 10 and
  11 rejects 5 and accepts 4.
\<close>

theorem validateNonce_semantics_witness:
  "\<not> fst (validateNonce 10 11 5 (markNonceUsed 9 5 (newNonceManager 0 86400000 0)))
   \<and> fst (validateNonce 10 11 4 (markNonceUsed 9 5 (newNonceManager 0 86400000 0)))"
  using validateNonce_semantics [of 10 11 5 "newNonceManager 0 86400000 0" 9]
    validateNonce_semantics [of 10 11 4 "markNonceUsed 9 5 (newNonceManager 0 86400000 0)" 9]
  by (simp add: newNonceManager_def markNonceUsed_def cleanup_def Let_def
      intToString_def natToString_digit digitChar_def)

text \<open>
  Claim C8 as stated fails. A tracker is made at time 0 with the default maximal age
  of 24 hours; 5 is marked used at 86400000 ms, which does not refresh the time of the
  last update; the validation one millisecond later clears the used set and accepts
  5. Likewise a tracker whose used set holds 5 and whose last update is more than 24
  hours old accepts 5.
\<close>

theorem validateNonce_counterexample:
  "fst (validateNonce 86400001 86400001 5
         (markNonceUsed 86400000 5 (newNonceManager 0 86400000 0)))
   \<and> ''5'' \<in> used (nonceState staleManager)
   \<and> fst (validateNonce 86400001 86400001 5 staleManager)"
  by (simp add: validateNonce_value newNonceManager_def markNonceUsed_def cleanup_def Let_def
      staleManager_def intToString_def natToString_digit digitChar_def)

section \<open>Validation of a message\<close>

lemma validateMessage_state:
  "snd (validateMessage parse dc st nm now1 now2 now3 msg) =
     (if truthy (map_of (message msg) ''nonce'')
      then (case toBigInt parse (map_of (message msg) ''nonce'') of
              Inl e \<Rightarrow> nm
            | Inr nonce \<Rightarrow> cleanup now2 (cleanup now1 nm))
      else nm)"
  by (simp add: validateMessage_def validateNonce_def isNonceUsed_def Let_def split: sum.splits)

lemma exampleParse_7: "exampleParse ''7'' = Some 7"
  by (simp add: exampleParse_def digitsValue_def digitValue_def isDigit_def)

lemma exampleMessage_nonce: "map_of (message exampleMessage) ''nonce'' = Some (JString ''7'')"
  by (simp add: exampleMessage_def exampleOperation_def serializeBase_def intToString_def
      natToString_digit digitChar_def)

text \<open>
  Claim C6, amended. \<open>validateMessage\<close> never changes the current counter of the nonce
  tracker. It leaves the whole tracker unchanged when the message carries no truthy
  nonce, and when the tracker is fresh at the clock readings of the validation (no
  more than \<open>maxAge\<close> past the last update). In the remaining case the tracker is left
  either unchanged or as the two cleanups of \<open>validateNonce\<close> leave it, with the used set
  emptied and the time of the last update moved to the clock reading.
\<close>

theorem validateMessage_nonce_frame:
  "current (nonceState (snd (validateMessage parse dc st nm now1 now2 now3 msg))) =
     current (nonceState nm)
   \<and> (snd (validateMessage parse dc st nm now1 now2 now3 msg) = nm
        \<or> snd (validateMessage parse dc st nm now1 now2 now3 msg) = cleanup now2 (cleanup now1 nm))
   \<and> (now1 - lastUpdated (nonceState nm) \<le> maxAge nm \<and> now2 - lastUpdated (nonceState nm) \<le> maxAge nm
        \<longrightarrow> snd (validateMessage parse dc st nm now1 now2 now3 msg) = nm)
   \<and> (\<not> truthy (map_of (message msg) ''nonce'')
        \<longrightarrow> snd (validateMessage parse dc st nm now1 now2 now3 msg) = nm)"
proof -
  have s: "snd (validateMessage parse dc st nm now1 now2 now3 msg) = nm
      \<or> snd (validateMessage parse dc st nm now1 now2 now3 msg) = cleanup now2 (cleanup now1 nm)"
    by (simp add: validateMessage_state split: sum.splits)
  have f: "cleanup now2 (cleanup now1 nm) = nm"
    if "now1 - lastUpdated (nonceState nm) \<le> maxAge nm"
      "now2 - lastUpdated (nonceState nm) \<le> maxAge nm"
    using that by (simp add: cleanup_fresh)
  have n: "snd (validateMessage parse dc st nm now1 now2 now3 msg) = nm"
    if "\<not> truthy (map_of (message msg) ''nonce'')"
    using that by (simp add: validateMessage_state)
  show ?thesis
    using s f n by (auto simp: cleanup_current)
qed

text \<open>A fresh tracker: the validation at the times 1000 to 1002 leaves it as it was.\<close>

theorem validateMessage_nonce_frame_witness:
  "snd (validateMessage exampleParse exampleConfig exampleStore staleManager 1000 1001 1002
         exampleMessage) = staleManager"
  using validateMessage_nonce_frame [of exampleParse exampleConfig exampleStore staleManager
      1000 1001 1002 exampleMessage]
  by (simp add: staleManager_def)

text \<open>
  Claim C6 as stated fails: on a tracker last updated more than 24 hours before, the
  validation of a message with a nonce empties the used set and moves the time of the
  last update.
\<close>

theorem validateMessage_counterexample:
  "used (nonceState staleManager) = {''5''}
   \<and> used (nonceState (snd (validateMessage exampleParse exampleConfig exampleStore staleManager
        86400001 86400001 86400001 exampleMessage))) = {}
   \<and> lastUpdated (nonceState staleManager) = 0
   \<and> lastUpdated (nonceState (snd (validateMessage exampleParse exampleConfig exampleStore
        staleManager 86400001 86400001 86400001 exampleMessage))) = 86400001"
  by (simp add: validateMessage_state exampleMessage_nonce exampleParse_7 cleanup_def
      staleManager_def)

section \<open>The domain configuration\<close>

text \<open>
  Claim C7, amended. The name and the version of the stored descriptor are never
  changed. \<open>updateChainId\<close> and \<open>updateVerifyingContract\<close> write the chain id and the
  verifying contract into the stored descriptor in place: the \<open>DomainConfig\<close> keeps its
  reference, no descriptor is added to the store, the other descriptors are left
  alone, and \<open>getDomain\<close> then gives the old descriptor with the one field replaced.
\<close>

theorem domain_update_in_place:
  "allocated self st \<longrightarrow>
     name (getDomain self (updateChainId self cid st)) = name (getDomain self st)
     \<and> version (getDomain self (updateChainId self cid st)) = version (getDomain self st)
     \<and> name (getDomain self (updateVerifyingContract self vc st)) = name (getDomain self st)
     \<and> version (getDomain self (updateVerifyingContract self vc st)) = version (getDomain self st)
     \<and> getDomain self (updateChainId self cid st) = (getDomain self st)\<lparr>chainId := cid\<rparr>
     \<and> getDomain self (updateVerifyingContract self vc st) =
         (getDomain self st)\<lparr>verifyingContract := vc\<rparr>
     \<and> length (updateChainId self cid st) = length st
     \<and> length (updateVerifyingContract self vc st) = length st
     \<and> (\<forall>r. r \<noteq> domainRef self \<longrightarrow> updateChainId self cid st ! r = st ! r
                \<and> updateVerifyingContract self vc st ! r = st ! r)"
  by (simp add: allocated_def getDomain_def updateChainId_def updateVerifyingContract_def)

theorem domain_update_in_place_witness:
  "allocated exampleConfig exampleStore
   \<and> getDomain exampleConfig (updateChainId exampleConfig 5 exampleStore) =
       exampleDomain\<lparr>chainId := 5\<rparr>"
  using domain_update_in_place [of exampleConfig exampleStore 5 "''0x''"]
  by (simp add: allocated_def exampleConfig_def exampleStore_def newDomainConfig_def
      getDomain_def exampleDomain_def)

text \<open>
  Claim C7 as stated fails, as in the repository's test of \<open>updateChainId\<close>: the
  configuration built with chain id 1 reports chain id 5 after \<open>updateChainId(5)\<close>,
  through the same reference and with no descriptor added to the store.
\<close>

theorem domain_immutable_counterexample:
  "chainId (getDomain exampleConfig exampleStore) = 1
   \<and> chainId (getDomain exampleConfig (updateChainId exampleConfig 5 exampleStore)) = 5
   \<and> domainRef exampleConfig = 0
   \<and> length (updateChainId exampleConfig 5 exampleStore) = length exampleStore"
  by (simp add: exampleConfig_def exampleStore_def newDomainConfig_def getDomain_def
      updateChainId_def)

end
